theory Spec2Isabelle
  imports
    Complex_Main
    "HOL-Library.Char_ord"
    "HOL-Library.List_Lexorder"
    "HOL-Library.Sublist"
    "HOL-Library.Multiset"
begin

section \<open>Data model of dashboard.py\<close>

text \<open>
  A pandas float cell: a finite value, an infinity or NaN. The only operation the
  dashboard applies to a coordinate is the comparison \<^verbatim>\<open>!= 0\<close>, which is exact on
  floats, so finite floats are read as reals (\<^verbatim>\<open>-0.0\<close> and \<^verbatim>\<open>0.0\<close> are both \<open>Float 0\<close>).
\<close>

datatype pyfloat = Float real | PosInf | NegInf | NaN

text \<open>
  A text cell of the data frame is a string or missing (NaN, \<open>None\<close> here). A dropdown
  value handed to a callback is a string or Python's \<^verbatim>\<open>None\<close>.
\<close>

type_synonym cell = "string option"
type_synonym selection = "string option"

text \<open>A row of the CSV as \<^verbatim>\<open>pd.read_csv\<close> delivers it, under the file's column names.\<close>

record raw_row =
  Region :: cell
  Zone :: cell
  Woreda :: cell
  Kebele :: cell
  latitude :: pyfloat
  longitude :: pyfloat

text \<open>A row of the global data frame \<^verbatim>\<open>df\<close> after the renaming.\<close>

record point =
  region :: cell
  zone :: cell
  woreda :: cell
  kebele :: cell
  lat :: pyfloat
  lon :: pyfloat

section \<open>Loading (lines 15 to 33)\<close>

text \<open>\<^verbatim>\<open>df.rename(columns={'Region': 'region', ...}, inplace=True)\<close>, row by row.\<close>

definition rename :: "raw_row \<Rightarrow> point" where
  "rename r = \<lparr>region = Region r, zone = Zone r, woreda = Woreda r, kebele = Kebele r,
               lat = latitude r, lon = longitude r\<rparr>"

text \<open>\<^verbatim>\<open>x != 0\<close> on a float cell: true for NaN and the infinities.\<close>

definition ne_zero :: "pyfloat \<Rightarrow> bool" where
  "ne_zero x = (case x of Float v \<Rightarrow> v \<noteq> 0 | PosInf \<Rightarrow> True | NegInf \<Rightarrow> True | NaN \<Rightarrow> True)"

text \<open>\<^verbatim>\<open>df = df[(df['lat'] != 0) & (df['lon'] != 0)]\<close> after the renaming.\<close>

definition load_points :: "raw_row list \<Rightarrow> point list" where
  "load_points rows = filter (\<lambda>p. ne_zero (lat p) \<and> ne_zero (lon p)) (map rename rows)"

section \<open>Selections and the two filters\<close>

text \<open>
  \<^verbatim>\<open>column == value\<close> in pandas, for one cell: a missing cell equals nothing, and a
  comparison with \<^verbatim>\<open>None\<close> is false in every row.
\<close>

definition col_eq :: "cell \<Rightarrow> selection \<Rightarrow> bool" where
  "col_eq c s = (case s of None \<Rightarrow> False | Some v \<Rightarrow> c = Some v)"

text \<open>Python truthiness of a dropdown value: \<^verbatim>\<open>None\<close> and the empty string are falsy.\<close>

definition truthy :: "selection \<Rightarrow> bool" where
  "truthy s = (case s of None \<Rightarrow> False | Some v \<Rightarrow> v \<noteq> [])"

text \<open>
  The filter of \<^verbatim>\<open>generate_map\<close> (lines 96 to 102):
  \<^verbatim>\<open>if selected_region and selected_region != 'All': ...\<close>
\<close>

definition filter_map_points :: "point list \<Rightarrow> selection \<Rightarrow> selection \<Rightarrow> selection \<Rightarrow> point list" where
  "filter_map_points df selected_region selected_zone selected_woreda =
     (let filtered = df;
          filtered = (if truthy selected_region \<and> selected_region \<noteq> Some ''All''
                      then filter (\<lambda>p. col_eq (region p) selected_region) filtered else filtered);
          filtered = (if truthy selected_zone \<and> selected_zone \<noteq> Some ''All''
                      then filter (\<lambda>p. col_eq (zone p) selected_zone) filtered else filtered);
          filtered = (if truthy selected_woreda \<and> selected_woreda \<noteq> Some ''All''
                      then filter (\<lambda>p. col_eq (woreda p) selected_woreda) filtered else filtered)
      in filtered)"

text \<open>
  The filter of \<^verbatim>\<open>update_stats_and_graphs\<close> (lines 252 to 258):
  \<^verbatim>\<open>if selected_region != 'All': ...\<close>, with no test of truthiness.
\<close>

definition filter_stats_points :: "point list \<Rightarrow> selection \<Rightarrow> selection \<Rightarrow> selection \<Rightarrow> point list" where
  "filter_stats_points df selected_region selected_zone selected_woreda =
     (let filtered = df;
          filtered = (if selected_region \<noteq> Some ''All''
                      then filter (\<lambda>p. col_eq (region p) selected_region) filtered else filtered);
          filtered = (if selected_zone \<noteq> Some ''All''
                      then filter (\<lambda>p. col_eq (zone p) selected_zone) filtered else filtered);
          filtered = (if selected_woreda \<noteq> Some ''All''
                      then filter (\<lambda>p. col_eq (woreda p) selected_woreda) filtered else filtered)
      in filtered)"

section \<open>pandas helpers\<close>

text \<open>\<^verbatim>\<open>Series.dropna()\<close> on a text column: the strings that are present, in row order.\<close>

fun dropna :: "cell list \<Rightarrow> string list" where
  "dropna [] = []"
| "dropna (None # cs) = dropna cs"
| "dropna (Some v # cs) = v # dropna cs"

text \<open>\<^verbatim>\<open>Series.unique()\<close>: each value once, in order of first appearance.\<close>

fun unique :: "'a list \<Rightarrow> 'a list" where
  "unique [] = []"
| "unique (x # xs) = x # unique (removeAll x xs)"

text \<open>
  \<^verbatim>\<open>Series.value_counts()\<close> with its defaults (\<^verbatim>\<open>dropna=True\<close>, \<^verbatim>\<open>sort=True\<close>,
  descending): one pair per distinct present value with the number of rows holding it,
  largest count first, equal counts in order of first appearance. Missing cells are not
  counted.
\<close>

definition value_counts :: "cell list \<Rightarrow> (string \<times> nat) list" where
  "value_counts col =
     (let vals = dropna col
      in sort_key (\<lambda>vc. - int (snd vc)) (map (\<lambda>v. (v, count_list vals v)) (unique vals)))"

section \<open>Statistics and charts (\<^verbatim>\<open>update_stats_and_graphs\<close>, lines 251 to 288)\<close>

datatype chart = Bar | Pie

text \<open>
  What the callback hands to \<^verbatim>\<open>px.bar\<close> or \<^verbatim>\<open>px.pie\<close>: the tally, the name given to
  its label column (the count column is always \<^verbatim>\<open>count\<close>) and the title.
\<close>

record figure =
  fig_chart :: chart
  fig_series :: "(string \<times> nat) list"
  fig_label :: string
  fig_title :: string

record stats_output =
  total_points :: nat
  region_data :: "(string \<times> nat) list"
  bar_fig :: figure
  pie_fig :: figure

definition update_stats_and_graphs ::
  "point list \<Rightarrow> selection \<Rightarrow> selection \<Rightarrow> selection \<Rightarrow> stats_output" where
  "update_stats_and_graphs df selected_region selected_zone selected_woreda =
     (let filtered = filter_stats_points df selected_region selected_zone selected_woreda;
          region_counts = value_counts (map region filtered);
          bar = (if selected_woreda = Some ''All''
                 then \<lparr>fig_chart = Bar, fig_series = value_counts (map woreda filtered),
                       fig_label = ''woreda'', fig_title = ''Points per Woreda''\<rparr>
                 else \<lparr>fig_chart = Bar, fig_series = value_counts (map kebele filtered),
                       fig_label = ''kebele'', fig_title = ''Points per Kebele''\<rparr>);
          pie = (if selected_zone = Some ''All''
                 then \<lparr>fig_chart = Pie, fig_series = value_counts (map zone filtered),
                       fig_label = ''zone'', fig_title = ''Distribution by Zone''\<rparr>
                 else \<lparr>fig_chart = Pie, fig_series = value_counts (map kebele filtered),
                       fig_label = ''kebele'', fig_title = ''Distribution by Kebele''\<rparr>)
      in \<lparr>total_points = length filtered, region_data = region_counts, bar_fig = bar, pie_fig = pie\<rparr>)"

section \<open>Cascading dropdowns (\<^verbatim>\<open>set_zone_options\<close>, \<^verbatim>\<open>set_woreda_options\<close>)\<close>

text \<open>
  A callback returns the option list, each option a label and a value, and the value the
  dropdown is set to.
\<close>

definition set_zone_options :: "point list \<Rightarrow> selection \<Rightarrow> (string \<times> string) list \<times> string" where
  "set_zone_options df selected_region =
     (let zones = (if selected_region = Some ''All''
                   then ''All'' # sort (unique (dropna (map zone df)))
                   else ''All'' # sort (unique (dropna (map zone
                          (filter (\<lambda>p. col_eq (region p) selected_region) df)))))
      in (map (\<lambda>z. (z, z)) zones, ''All''))"

definition set_woreda_options ::
  "point list \<Rightarrow> selection \<Rightarrow> selection \<Rightarrow> (string \<times> string) list \<times> string" where
  "set_woreda_options df selected_region selected_zone =
     (let filtered = df;
          filtered = (if selected_region \<noteq> Some ''All''
                      then filter (\<lambda>p. col_eq (region p) selected_region) filtered else filtered);
          filtered = (if selected_zone \<noteq> Some ''All''
                      then filter (\<lambda>p. col_eq (zone p) selected_zone) filtered else filtered);
          woredas = ''All'' # sort (unique (dropna (map woreda filtered)))
      in (map (\<lambda>w. (w, w)) woredas, ''All''))"

text \<open>The values a dropdown offers: the spec's \<^verbatim>\<open>zonesFor\<close> and \<^verbatim>\<open>woredasFor\<close>.\<close>

definition zonesFor :: "point list \<Rightarrow> selection \<Rightarrow> string list" where
  "zonesFor df selected_region = map snd (fst (set_zone_options df selected_region))"

definition woredasFor :: "point list \<Rightarrow> selection \<Rightarrow> selection \<Rightarrow> string list" where
  "woredasFor df selected_region selected_zone =
     map snd (fst (set_woreda_options df selected_region selected_zone))"

section \<open>The map (\<^verbatim>\<open>generate_map\<close>, \<^verbatim>\<open>update_map\<close>)\<close>

text \<open>
  An exception of class \<^verbatim>\<open>Exception\<close>, which is what \<^verbatim>\<open>except Exception\<close>
  catches, as its text \<^verbatim>\<open>str(e)\<close>. Interrupts and exits of the interpreter are not
  part of the model.
\<close>

datatype exn = Exception string

text \<open>
  What is put on a map, with the arguments the code passes: a tile layer with its
  \<^verbatim>\<open>tiles\<close> and its \<^verbatim>\<open>name\<close> if one is given, the boundary layer with its name, a
  circle marker with its location and popup, a feature group with its name and members,
  a marker with its location, popup and icon colour, and the three controls.
\<close>

datatype element =
    TileLayer string "string option"
  | GeoJson string
  | CircleMarker "pyfloat \<times> pyfloat" string
  | FeatureGroup string "element list"
  | Marker "pyfloat \<times> pyfloat" string string
  | LayerControl
  | Fullscreen
  | HomeButton

record folium_map =
  location :: "pyfloat \<times> pyfloat"
  zoom_start :: nat
  control_scale :: bool
  children :: "element list"

text \<open>
  \<^verbatim>\<open>m._repr_html_()\<close>: the page is determined by the map, so the model keeps the map.
\<close>

datatype html = Html folium_map

text \<open>
  folium, \<^verbatim>\<open>print\<close> and \<^verbatim>\<open>traceback\<close> are not part of the repository, and any call of
  them may raise. Each call the two functions make is named here, with the data it is
  given, and what the environment makes a call raise, if anything, is a parameter of the
  model. \<open>Map_call\<close> carries the map \<^verbatim>\<open>folium.Map\<close> is asked for, \<open>Print_count_call\<close> is
  the \<^verbatim>\<open>print\<close> of line 104, \<open>Print_error_call\<close> the \<^verbatim>\<open>print\<close> of line 300, whose
  text starts with the character U+274C, and \<open>Print_exc_call\<close> is
  \<^verbatim>\<open>traceback.print_exc()\<close>.
\<close>

datatype call =
    Map_call folium_map
  | TileLayer_call string
  | GeoJson_call
  | Print_count_call nat
  | FeatureGroup_call
  | CircleMarker_call point
  | LayerControl_call
  | Fullscreen_call
  | HomeButton_call
  | Repr_html_call folium_map
  | Print_error_call exn
  | Print_exc_call
  | Marker_call string

type_synonym faults = "call \<Rightarrow> exn option"

text \<open>One call, then the rest of the function unless the call raises.\<close>

definition attempt :: "faults \<Rightarrow> call \<Rightarrow> exn + 'a \<Rightarrow> exn + 'a" where
  "attempt F c rest = (case F c of Some e \<Rightarrow> Inl e | None \<Rightarrow> rest)"

text \<open>\<^verbatim>\<open>f"{row['region']}"\<close>: a missing cell prints as \<^verbatim>\<open>nan\<close>.\<close>

definition cell_str :: "cell \<Rightarrow> string" where
  "cell_str c = (case c of None \<Rightarrow> ''nan'' | Some v \<Rightarrow> v)"

definition popup_text :: "point \<Rightarrow> string" where
  "popup_text row =
     ''<b>Region:</b> '' @ cell_str (region row) @ ''<br>'' @
     ''<b>Zone:</b> '' @ cell_str (zone row) @ ''<br>'' @
     ''<b>Woreda:</b> '' @ cell_str (woreda row) @ ''<br>'' @
     ''<b>Kebele:</b> '' @ cell_str (kebele row)"

text \<open>The loop over \<^verbatim>\<open>filtered.iterrows()\<close>: the first marker that raises ends it.\<close>

fun add_markers :: "faults \<Rightarrow> point list \<Rightarrow> element list \<Rightarrow> exn + element list" where
  "add_markers F [] point_group = Inr point_group"
| "add_markers F (row # rows) point_group =
     attempt F (CircleMarker_call row)
       (add_markers F rows (point_group @ [CircleMarker (lat row, lon row) (popup_text row)]))"

definition home :: "pyfloat \<times> pyfloat" where
  "home = (Float 9, Float (77 / 2))"

text \<open>
  Line 72: \<^verbatim>\<open>folium.Map(location=[9.0, 38.5], zoom_start=6, control_scale=True, tiles=None)\<close>,
  a map with no tile layer of its own.
\<close>

definition base_map :: folium_map where
  "base_map = \<lparr>location = home, zoom_start = 6, control_scale = True, children = []\<rparr>"

definition satellite_tiles :: string where
  "satellite_tiles =
     ''https://server.arcgisonline.com/ArcGIS/rest/services/World_Imagery/MapServer/tile/{z}/{y}/{x}''"

text \<open>Lines 71 to 130, call by call in the order of the source.\<close>

definition generate_map ::
  "faults \<Rightarrow> point list \<Rightarrow> selection \<Rightarrow> selection \<Rightarrow> selection \<Rightarrow> exn + html" where
  "generate_map F df selected_region selected_zone selected_woreda =
     attempt F (Map_call base_map)
    (attempt F (TileLayer_call ''openstreetmap'')
    (attempt F (TileLayer_call satellite_tiles)
    (attempt F GeoJson_call
    (let filtered = filter_map_points df selected_region selected_zone selected_woreda
     in attempt F (Print_count_call (length filtered))
       (attempt F FeatureGroup_call
       (case add_markers F filtered [] of
          Inl e \<Rightarrow> Inl e
        | Inr point_group \<Rightarrow>
            attempt F LayerControl_call
           (attempt F Fullscreen_call
           (attempt F HomeButton_call
           (let m = base_map\<lparr>children :=
                      [TileLayer ''openstreetmap'' (Some ''OpenStreetMap''),
                       TileLayer satellite_tiles (Some ''Satellite''),
                       GeoJson ''Region Boundaries'',
                       FeatureGroup ''GPS Points'' point_group,
                       LayerControl, Fullscreen, HomeButton]\<rparr>
            in attempt F (Repr_html_call m) (Inr (Html m)))))))))))"

text \<open>
  Line 303: \<^verbatim>\<open>folium.Map(location=[9.0, 38.5], zoom_start=6)\<close>. No \<^verbatim>\<open>tiles=None\<close> here,
  so the map comes with the tile layer of folium's default, \<^verbatim>\<open>tiles="OpenStreetMap"\<close>.
\<close>

definition default_map :: folium_map where
  "default_map = \<lparr>location = home, zoom_start = 6, control_scale = False,
                   children = [TileLayer ''OpenStreetMap'' None]\<rparr>"

definition exn_text :: "exn \<Rightarrow> string" where
  "exn_text e = (case e of Exception msg \<Rightarrow> msg)"

text \<open>
  The map of the \<^verbatim>\<open>except\<close> branch after line 304: the default map with one red marker
  at the default location, whose popup is \<^verbatim>\<open>f"Error: {e}"\<close>.
\<close>

definition fallback_map :: "exn \<Rightarrow> folium_map" where
  "fallback_map e =
     default_map\<lparr>children := children default_map @ [Marker home (''Error: '' @ exn_text e) ''red'']\<rparr>"

text \<open>
  Lines 296 to 305. An exception raised by a statement of the \<^verbatim>\<open>except\<close> branch is not
  caught by anything and leaves the function.
\<close>

definition update_map ::
  "faults \<Rightarrow> point list \<Rightarrow> selection \<Rightarrow> selection \<Rightarrow> selection \<Rightarrow> exn + html" where
  "update_map F df selected_region selected_zone selected_woreda =
     (case generate_map F df selected_region selected_zone selected_woreda of
        Inr page \<Rightarrow> Inr page
      | Inl e \<Rightarrow>
          attempt F (Print_error_call e)
         (attempt F Print_exc_call
         (attempt F (Map_call default_map)
         (attempt F (Marker_call (''Error: '' @ exn_text e))
         (attempt F (Repr_html_call (fallback_map e))
            (Inr (Html (fallback_map e))))))))"

text \<open>
  The two callbacks that hang on the three dropdowns (lines 242 to 250 and 290 to 295):
  one change of the selection runs both, each on its own.
\<close>

definition on_selection ::
  "faults \<Rightarrow> point list \<Rightarrow> selection \<Rightarrow> selection \<Rightarrow> selection \<Rightarrow> stats_output \<times> (exn + html)" where
  "on_selection F df selected_region selected_zone selected_woreda =
     (update_stats_and_graphs df selected_region selected_zone selected_woreda,
      update_map F df selected_region selected_zone selected_woreda)"

text \<open>
  None of the statements of the \<^verbatim>\<open>except\<close> branch raises: the \<^verbatim>\<open>print\<close> of line 300,
  \<^verbatim>\<open>traceback.print_exc()\<close>, \<^verbatim>\<open>folium.Map\<close>, \<^verbatim>\<open>folium.Marker\<close> and
  \<^verbatim>\<open>_repr_html_\<close>.
\<close>

definition handler_ok :: "faults \<Rightarrow> exn \<Rightarrow> bool" where
  "handler_ok F e =
     (F (Print_error_call e) = None \<and> F Print_exc_call = None
      \<and> F (Map_call default_map) = None
      \<and> F (Marker_call (''Error: '' @ exn_text e)) = None
      \<and> F (Repr_html_call (fallback_map e)) = None)"

section \<open>Start-up (module level, lines 14 to 48 and 310 to 311)\<close>

text \<open>
  The boundary file as \<^verbatim>\<open>gpd.read_file\<close> delivers it: its reference system, if the
  file names one, and its attribute columns; the geometry column, always there, comes
  last.
\<close>

record gdf =
  crs :: "string option"
  attr_columns :: "string list"

definition gdf_columns :: "gdf \<Rightarrow> string list" where
  "gdf_columns g = attr_columns g @ [''geometry'']"

text \<open>
  What stops the module: the \<^verbatim>\<open>ValueError\<close> of geopandas when data without a reference
  system is to be reprojected, and the \<^verbatim>\<open>KeyError\<close> of line 46, kept with the two values
  its message is built from, the column looked for and the columns available.
\<close>

datatype startup_error = ValueError string | KeyError string "string list"

text \<open>
  \<^verbatim>\<open>regions_gdf.to_crs('EPSG:4326')\<close>: the geometries are reprojected, the columns stay.
  Without a reference system to start from the call raises.
\<close>

definition to_crs :: "gdf \<Rightarrow> string \<Rightarrow> startup_error + gdf" where
  "to_crs g c =
     (case crs g of
        None \<Rightarrow> Inl (ValueError ''Cannot transform naive geometries.  Please set a crs on the object first.'')
      | Some _ \<Rightarrow> Inr (g\<lparr>crs := Some c\<rparr>))"

definition region_col :: string where
  "region_col = ''adm1_name''"

text \<open>Lines 44 to 48: the column check, then the two columns kept.\<close>

definition check_region_col :: "gdf \<Rightarrow> startup_error + gdf" where
  "check_region_col regions_gdf =
     (if region_col \<notin> set (gdf_columns regions_gdf)
      then Inl (KeyError region_col (gdf_columns regions_gdf))
      else Inr (regions_gdf\<lparr>attr_columns := [region_col]\<rparr>))"

text \<open>Lines 41 to 48: reprojection if the reference system is another one, then the check.\<close>

definition load_boundaries :: "gdf \<Rightarrow> startup_error + gdf" where
  "load_boundaries shp =
     (if crs shp \<noteq> Some ''EPSG:4326''
      then (case to_crs shp ''EPSG:4326'' of
              Inl e \<Rightarrow> Inl e
            | Inr regions_gdf \<Rightarrow> check_region_col regions_gdf)
      else check_region_col shp)"

text \<open>
  The module's state once it has run to its end: the data, and the address the server
  is started on when the module is the main program.
\<close>

record app =
  app_df :: "point list"
  app_regions :: "string list"
  app_boundaries :: gdf
  app_server :: "(string \<times> nat) option"

definition startup :: "bool \<Rightarrow> raw_row list \<Rightarrow> gdf \<Rightarrow> startup_error + app" where
  "startup is_main csv shp =
     (let df = load_points csv;
          regions = sort (unique (dropna (map region df)))
      in case load_boundaries shp of
           Inl e \<Rightarrow> Inl e
         | Inr regions_gdf_clean \<Rightarrow>
             Inr \<lparr>app_df = df, app_regions = regions, app_boundaries = regions_gdf_clean,
                  app_server = (if is_main then Some (''0.0.0.0'', 8050) else None)\<rparr>)"

section \<open>Auxiliary predicates and sample data\<close>

text \<open>
  The constraint one selected value puts on one cell, for each of the two filters, as one
  predicate: the filters are then a single pass with the conjunction of three of them.
\<close>

definition keeps_stats :: "selection \<Rightarrow> cell \<Rightarrow> bool" where
  "keeps_stats s c = (s = Some ''All'' \<or> col_eq c s)"

definition keeps_map :: "selection \<Rightarrow> cell \<Rightarrow> bool" where
  "keeps_map s c = (\<not> truthy s \<or> s = Some ''All'' \<or> col_eq c s)"

definition pt :: "string \<Rightarrow> string \<Rightarrow> string \<Rightarrow> string \<Rightarrow> point" where
  "pt r z w k = \<lparr>region = Some r, zone = Some z, woreda = Some w, kebele = Some k,
                 lat = Float 9, lon = Float 38\<rparr>"

definition sample_df :: "point list" where
  "sample_df = [pt ''Oromia'' ''Arsi'' ''Tiyo'' ''K1'',
                pt ''Oromia'' ''Bale'' ''Goba'' ''K2'',
                pt ''Amhara'' ''Awi'' ''Dangila'' ''K3'']"

text \<open>
  The filter as the specification words it, to compare the two filters of the code with:
  an absent value or \<^verbatim>\<open>All\<close> puts no constraint on a field, any other value keeps the
  records whose field equals it, and the three constraints are conjoined.
\<close>

definition spec_keeps :: "selection \<Rightarrow> cell \<Rightarrow> bool" where
  "spec_keeps s c = (case s of None \<Rightarrow> True | Some v \<Rightarrow> v = ''All'' \<or> c = Some v)"

definition spec_filter :: "point list \<Rightarrow> selection \<Rightarrow> selection \<Rightarrow> selection \<Rightarrow> point list" where
  "spec_filter df r z w =
     filter (\<lambda>p. spec_keeps r (region p) \<and> spec_keeps z (zone p) \<and> spec_keeps w (woreda p)) df"

text \<open>A selection with the empty string read as absent, as Python's truthiness does.\<close>

definition blank :: "selection \<Rightarrow> selection" where
  "blank s = (if s = Some [] then None else s)"

text \<open>Rows of a CSV: a good one, one on latitude zero, one with no latitude.\<close>

definition sample_csv :: "raw_row list" where
  "sample_csv =
     [\<lparr>Region = Some ''Oromia'', Zone = Some ''Arsi'', Woreda = Some ''Tiyo'',
       Kebele = Some ''K1'', latitude = Float 8, longitude = Float 39\<rparr>,
      \<lparr>Region = Some ''Oromia'', Zone = Some ''Bale'', Woreda = Some ''Goba'',
       Kebele = Some ''K2'', latitude = Float 0, longitude = Float 40\<rparr>,
      \<lparr>Region = Some ''Amhara'', Zone = Some ''Awi'', Woreda = Some ''Dangila'',
       Kebele = Some ''K3'', latitude = NaN, longitude = Float 37\<rparr>]"

text \<open>A data frame whose only row has no region.\<close>

definition null_region_df :: "point list" where
  "null_region_df =
     [\<lparr>region = None, zone = Some ''Arsi'', woreda = Some ''Tiyo'', kebele = Some ''K1'',
       lat = Float 8, lon = Float 39\<rparr>]"

text \<open>A data frame with a zone that is itself called \<^verbatim>\<open>All\<close>.\<close>

definition all_zone_df :: "point list" where
  "all_zone_df = [pt ''Oromia'' ''All'' ''Tiyo'' ''K1'']"

text \<open>
  The tally of a field over a subset as the specification describes it: every value
  of the field that is present in the subset once, each with the number of records that
  hold it, in descending order of count.
\<close>

definition tally_of :: "(point \<Rightarrow> cell) \<Rightarrow> point list \<Rightarrow> (string \<times> nat) list \<Rightarrow> bool" where
  "tally_of fld rows t =
     (distinct (map fst t)
      \<and> (\<forall>vn \<in> set t. snd vn = length (filter (\<lambda>p. fld p = Some (fst vn)) rows)
                        \<and> 0 < snd vn)
      \<and> (\<forall>p \<in> set rows. case fld p of None \<Rightarrow> True | Some v \<Rightarrow> v \<in> fst ` set t)
      \<and> sorted_wrt (\<lambda>a b. snd b \<le> snd a) t)"

text \<open>A data frame in which a woreda, a zone and a kebele come more than once.\<close>

definition repeat_df :: "point list" where
  "repeat_df = [pt ''Oromia'' ''Bale'' ''Goba'' ''K2'',
                pt ''Oromia'' ''Arsi'' ''Tiyo'' ''K1'',
                pt ''Oromia'' ''Arsi'' ''Tiyo'' ''K1'',
                pt ''Oromia'' ''Arsi'' ''Tiyo'' ''K7'']"

text \<open>A data frame with a row that has no latitude.\<close>

definition nan_df :: "point list" where
  "nan_df =
     [\<lparr>region = Some ''Oromia'', zone = Some ''Arsi'', woreda = Some ''Tiyo'',
       kebele = Some ''K1'', lat = NaN, lon = Float 39\<rparr>]"

text \<open>An environment in which a circle marker refuses a location with a NaN.\<close>

definition nan_faults :: faults where
  "nan_faults c =
     (case c of
        CircleMarker_call row \<Rightarrow>
          (if lat row = NaN \<or> lon row = NaN
           then Some (Exception ''Location values cannot contain NaNs.'') else None)
      | _ \<Rightarrow> None)"

text \<open>
  The same environment with a standard output that cannot encode U+274C, the first
  character line 300 prints.
\<close>

definition ascii_stdout_faults :: faults where
  "ascii_stdout_faults c =
     (case c of
        CircleMarker_call row \<Rightarrow>
          (if lat row = NaN \<or> lon row = NaN
           then Some (Exception ''Location values cannot contain NaNs.'') else None)
      | Print_error_call e \<Rightarrow>
          Some (Exception ''ascii codec cannot encode character U+274C in position 0'')
      | _ \<Rightarrow> None)"

text \<open>
  Three boundary files: one with the name column, one without it, one with the column
  and with no reference system.
\<close>

definition good_shp :: gdf where
  "good_shp = \<lparr>crs = Some ''EPSG:4326'', attr_columns = [''adm1_name'', ''adm1_pcode'']\<rparr>"

definition bad_shp :: gdf where
  "bad_shp = \<lparr>crs = Some ''EPSG:32637'', attr_columns = [''ADM1_EN'', ''adm1_pcode'']\<rparr>"

definition no_crs_shp :: gdf where
  "no_crs_shp = \<lparr>crs = None, attr_columns = [''adm1_name'', ''adm1_pcode'']\<rparr>"

section \<open>Properties of the filters\<close>

lemma filter_stats_points_conv:
  "filter_stats_points df r z w =
     filter (\<lambda>p. keeps_stats r (region p) \<and> keeps_stats z (zone p) \<and> keeps_stats w (woreda p)) df"
  by (auto simp add: filter_stats_points_def keeps_stats_def Let_def intro!: filter_cong)

lemma filter_map_points_conv:
  "filter_map_points df r z w =
     filter (\<lambda>p. keeps_map r (region p) \<and> keeps_map z (zone p) \<and> keeps_map w (woreda p)) df"
  by (auto simp add: filter_map_points_def keeps_map_def Let_def intro!: filter_cong)

lemma keeps_stats_spec: "s \<noteq> None \<Longrightarrow> keeps_stats s c = spec_keeps s c"
  by (cases s) (auto simp: keeps_stats_def spec_keeps_def col_eq_def)

lemma keeps_map_spec: "keeps_map s c = spec_keeps (blank s) c"
  by (cases s) (auto simp: keeps_map_def spec_keeps_def col_eq_def truthy_def blank_def)

lemma keeps_stats_All: "keeps_stats (Some ''All'') c"
  by (simp add: keeps_stats_def)

lemma keeps_map_All: "keeps_map (Some ''All'') c"
  by (simp add: keeps_map_def)

lemma keeps_stats_imp_map: "keeps_stats s c \<Longrightarrow> keeps_map s c"
  by (simp add: keeps_stats_def keeps_map_def)

lemma subseq_filter_mono:
  assumes "\<And>x. x \<in> set xs \<Longrightarrow> P x \<Longrightarrow> Q x"
  shows "subseq (filter P xs) (filter Q xs)"
proof -
  have "filter P xs = filter P (filter Q xs)"
    using assms by (auto intro!: filter_cong)
  then show ?thesis by (metis subseq_filter_left)
qed

text \<open>
  Claim C1, as amended. For a selection of three strings the filter of
  \<^verbatim>\<open>update_stats_and_graphs\<close> returns exactly the records the specification asks for:
  \<^verbatim>\<open>All\<close> puts no constraint on its field, any other string keeps the records whose
  field equals it, and the three constraints are conjoined. The filter of
  \<^verbatim>\<open>generate_map\<close> does the same on every selection once \<^verbatim>\<open>None\<close> and the empty
  string are both read as absent.
\<close>

theorem filters_refine_spec:
  "(r \<noteq> None \<and> z \<noteq> None \<and> w \<noteq> None \<longrightarrow>
      filter_stats_points df r z w = spec_filter df r z w)
   \<and> filter_map_points df r z w = spec_filter df (blank r) (blank z) (blank w)"
  by (simp add: filter_stats_points_conv filter_map_points_conv spec_filter_def
      keeps_stats_spec keeps_map_spec)

theorem filters_refine_spec_witness:
  "filter_stats_points sample_df (Some ''Oromia'') (Some ''All'') (Some ''All'')
     = [pt ''Oromia'' ''Arsi'' ''Tiyo'' ''K1'', pt ''Oromia'' ''Bale'' ''Goba'' ''K2'']
   \<and> spec_filter sample_df (Some ''Oromia'') (Some ''All'') (Some ''All'')
     = [pt ''Oromia'' ''Arsi'' ''Tiyo'' ''K1'', pt ''Oromia'' ''Bale'' ''Goba'' ''K2'']
   \<and> filter_map_points sample_df (Some ''Oromia'') None (Some [])
     = [pt ''Oromia'' ''Arsi'' ''Tiyo'' ''K1'', pt ''Oromia'' ''Bale'' ''Goba'' ''K2'']"
  using filters_refine_spec [of "Some ''Oromia''" "Some ''All''" "Some ''All''" sample_df]
    filters_refine_spec [of "Some ''Oromia''" None "Some []" sample_df]
  by (simp add: spec_filter_def spec_keeps_def sample_df_def pt_def blank_def)

text \<open>
  Claim C1 as stated fails twice. With \<^verbatim>\<open>None\<close> for the region the filter of
  \<^verbatim>\<open>update_stats_and_graphs\<close> compares the column with \<^verbatim>\<open>None\<close> and keeps no record,
  where the claim asks for all of them. With the empty string for the region the filter
  of \<^verbatim>\<open>generate_map\<close> keeps every record, where the claim asks for the records whose
  region is the empty string.
\<close>

theorem filter_absent_counterexample:
  "filter_stats_points sample_df None (Some ''All'') (Some ''All'') = []
   \<and> spec_filter sample_df None (Some ''All'') (Some ''All'') = sample_df
   \<and> filter_stats_points sample_df None (Some ''All'') (Some ''All'')
       \<noteq> spec_filter sample_df None (Some ''All'') (Some ''All'')
   \<and> filter_map_points sample_df (Some []) (Some ''All'') (Some ''All'') = sample_df
   \<and> spec_filter sample_df (Some []) (Some ''All'') (Some ''All'') = []
   \<and> filter_map_points sample_df (Some []) (Some ''All'') (Some ''All'')
       \<noteq> spec_filter sample_df (Some []) (Some ''All'') (Some ''All'')"
  by (simp add: filter_stats_points_def filter_map_points_def spec_filter_def spec_keeps_def
      col_eq_def truthy_def sample_df_def pt_def Let_def)

lemma stats_narrow:
  "subseq (filter_stats_points df r z w) (filter_stats_points df (Some ''All'') z w)"
  "subseq (filter_stats_points df r z w) (filter_stats_points df r (Some ''All'') w)"
  "subseq (filter_stats_points df r z w) (filter_stats_points df r z (Some ''All''))"
  "subseq (filter_stats_points df r z w) df"
  by (simp_all add: filter_stats_points_conv keeps_stats_All) (rule subseq_filter_mono; simp)+

lemma map_narrow:
  "subseq (filter_map_points df r z w) (filter_map_points df (Some ''All'') z w)"
  "subseq (filter_map_points df r z w) (filter_map_points df r (Some ''All'') w)"
  "subseq (filter_map_points df r z w) (filter_map_points df r z (Some ''All''))"
  "subseq (filter_map_points df r z w) df"
  by (simp_all add: filter_map_points_conv keeps_map_All) (rule subseq_filter_mono; simp)+

text \<open>
  Claim C10. Narrowing is monotone for both filters: whatever value replaces an \<^verbatim>\<open>All\<close>
  in the region, the zone or the woreda, the records kept are a subsequence of the
  records kept before, and every filtered subset is a subsequence of the data frame, so
  no record is made up, changed or moved.
\<close>

theorem filter_narrowing_monotone:
  "subseq (filter_stats_points df r z w) (filter_stats_points df (Some ''All'') z w)
   \<and> subseq (filter_stats_points df r z w) (filter_stats_points df r (Some ''All'') w)
   \<and> subseq (filter_stats_points df r z w) (filter_stats_points df r z (Some ''All''))
   \<and> subseq (filter_stats_points df r z w) df
   \<and> subseq (filter_map_points df r z w) (filter_map_points df (Some ''All'') z w)
   \<and> subseq (filter_map_points df r z w) (filter_map_points df r (Some ''All'') w)
   \<and> subseq (filter_map_points df r z w) (filter_map_points df r z (Some ''All''))
   \<and> subseq (filter_map_points df r z w) df"
  by (simp only: stats_narrow map_narrow simp_thms)

theorem filter_narrowing_monotone_witness:
  "subseq (filter_stats_points sample_df (Some ''Oromia'') (Some ''Arsi'') (Some ''All''))
          (filter_stats_points sample_df (Some ''Oromia'') (Some ''All'') (Some ''All''))
   \<and> filter_stats_points sample_df (Some ''Oromia'') (Some ''Arsi'') (Some ''All'')
       = [pt ''Oromia'' ''Arsi'' ''Tiyo'' ''K1'']
   \<and> filter_stats_points sample_df (Some ''Oromia'') (Some ''All'') (Some ''All'')
       = [pt ''Oromia'' ''Arsi'' ''Tiyo'' ''K1'', pt ''Oromia'' ''Bale'' ''Goba'' ''K2'']"
  using filter_narrowing_monotone [of sample_df "Some ''Oromia''" "Some ''Arsi''" "Some ''All''"]
  by (simp add: filter_stats_points_def col_eq_def sample_df_def pt_def Let_def)

section \<open>The loader\<close>

lemma ne_zero_iff: "ne_zero x \<longleftrightarrow> x \<noteq> Float 0"
  by (cases x) (simp_all add: ne_zero_def)

text \<open>
  Claim C9. After loading, the point collection holds exactly the rows of the file whose
  latitude is not 0 and whose longitude is not 0, in the file's order and under the new
  field names; every row with a zero coordinate is gone and every row kept has both
  coordinates different from 0.
\<close>

theorem load_points_spec:
  "load_points rows =
     map rename (filter (\<lambda>r. latitude r \<noteq> Float 0 \<and> longitude r \<noteq> Float 0) rows)
   \<and> (\<forall>p \<in> set (load_points rows). lat p \<noteq> Float 0 \<and> lon p \<noteq> Float 0)
   \<and> (\<forall>r \<in> set rows. latitude r = Float 0 \<or> longitude r = Float 0
         \<longrightarrow> rename r \<notin> set (load_points rows))
   \<and> (\<forall>r. region (rename r) = Region r \<and> zone (rename r) = Zone r
         \<and> woreda (rename r) = Woreda r \<and> kebele (rename r) = Kebele r
         \<and> lat (rename r) = latitude r \<and> lon (rename r) = longitude r)"
  by (auto simp add: load_points_def ne_zero_iff filter_map comp_def rename_def)

theorem load_points_spec_witness:
  "load_points sample_csv = [rename (sample_csv ! 0), rename (sample_csv ! 2)]
   \<and> lat (rename (sample_csv ! 0)) = Float 8 \<and> lat (rename (sample_csv ! 2)) = NaN
   \<and> latitude (sample_csv ! 1) = Float 0
   \<and> rename (sample_csv ! 1) \<notin> set (load_points sample_csv)"
  using load_points_spec [of sample_csv]
  by (simp add: sample_csv_def rename_def)

section \<open>The cascading dropdowns\<close>

text \<open>
  Claim C4. Whatever value comes in, \<^verbatim>\<open>set_zone_options\<close> sets the zone dropdown to
  \<^verbatim>\<open>All\<close> and \<^verbatim>\<open>set_woreda_options\<close> sets the woreda dropdown to \<^verbatim>\<open>All\<close>. The first
  runs on every change of the region, the second on every change of the region or of
  the zone, so a change upstream always resets what is downstream.
\<close>

theorem resolver_resets:
  "snd (set_zone_options df selected_region) = ''All''
   \<and> snd (set_woreda_options df selected_region selected_zone) = ''All''"
  by (simp add: set_zone_options_def set_woreda_options_def Let_def)

section \<open>Option lists\<close>

lemma set_unique: "set (unique xs) = set xs"
  by (induction xs rule: unique.induct) auto

lemma distinct_unique: "distinct (unique xs)"
  by (induction xs rule: unique.induct) (auto simp: set_unique)

lemma set_dropna: "set (dropna col) = {v. Some v \<in> set col}"
  by (induction col rule: dropna.induct) auto

lemma zonesFor_conv:
  "zonesFor df r = ''All'' # sort (unique (dropna (map zone (filter (\<lambda>p. keeps_stats r (region p)) df))))"
  by (simp add: zonesFor_def set_zone_options_def Let_def comp_def keeps_stats_def)

lemma woredasFor_conv:
  "woredasFor df r z = ''All'' # sort (unique (dropna (map woreda
      (filter (\<lambda>p. keeps_stats r (region p) \<and> keeps_stats z (zone p)) df))))"
  by (auto simp add: woredasFor_def set_woreda_options_def Let_def comp_def keeps_stats_def
      intro!: arg_cong[where f="\<lambda>x. sort (unique (dropna (map woreda x)))"] filter_cong)

lemma set_options:
  "set (unique (dropna (map f (filter P df)))) = {v. \<exists>p \<in> set df. P p \<and> f p = Some v}"
  by (auto simp: set_unique set_dropna image_iff)

text \<open>
  Claim C5, as amended. The zone options are \<^verbatim>\<open>All\<close> followed by the zones of the
  records that match the region (every record when the region is \<^verbatim>\<open>All\<close>), missing
  zones left out, in ascending order and each once. Strings are compared byte by byte,
  which on UTF-8 is Python's order by code point. The whole list is free of duplicates
  exactly when no matching record has a zone called \<^verbatim>\<open>All\<close>.
\<close>

theorem zonesFor_shape:
  "zonesFor df r \<noteq> []
   \<and> hd (zonesFor df r) = ''All''
   \<and> sorted (tl (zonesFor df r))
   \<and> distinct (tl (zonesFor df r))
   \<and> set (tl (zonesFor df r)) = {v. \<exists>p \<in> set df. keeps_stats r (region p) \<and> zone p = Some v}
   \<and> (distinct (zonesFor df r) \<longleftrightarrow> ''All'' \<notin> set (tl (zonesFor df r)))"
  by (simp add: zonesFor_conv set_options distinct_unique)

text \<open>
  Claim C5 as stated fails on a data frame with a zone called \<^verbatim>\<open>All\<close>: the option
  list then holds \<^verbatim>\<open>All\<close> twice.
\<close>

theorem zonesFor_duplicate_counterexample:
  "zonesFor all_zone_df (Some ''All'') = [''All'', ''All'']
   \<and> \<not> distinct (zonesFor all_zone_df (Some ''All''))"
  by (simp add: zonesFor_def set_zone_options_def all_zone_df_def pt_def Let_def)

theorem zonesFor_shape_witness:
  "zonesFor sample_df (Some ''Oromia'') = [''All'', ''Arsi'', ''Bale'']
   \<and> distinct (zonesFor sample_df (Some ''Oromia''))"
  using zonesFor_shape [of sample_df "Some ''Oromia''"]
  by (simp add: zonesFor_def set_zone_options_def sample_df_def pt_def Let_def col_eq_def)

lemma offered_zone:
  assumes "v \<in> set (zonesFor df r)" "v \<noteq> ''All''"
  shows "\<exists>p \<in> set df. keeps_stats r (region p) \<and> zone p = Some v"
  using assms by (auto simp: zonesFor_conv set_options)

lemma offered_woreda:
  assumes "v \<in> set (woredasFor df r z)" "v \<noteq> ''All''"
  shows "\<exists>p \<in> set df. keeps_stats r (region p) \<and> keeps_stats z (zone p) \<and> woreda p = Some v"
  using assms by (auto simp: woredasFor_conv set_options)

lemma keeps_stats_same: "keeps_stats (Some v) (Some v)"
  by (simp add: keeps_stats_def col_eq_def)

lemma stats_subset_map:
  "set (filter_stats_points df r z w) \<subseteq> set (filter_map_points df r z w)"
  by (auto simp: filter_stats_points_conv filter_map_points_conv keeps_stats_imp_map)

lemma zone_option_nonempty:
  assumes "v \<in> set (zonesFor df r)" "v \<noteq> ''All''"
  shows "filter_stats_points df r (Some v) (Some ''All'') \<noteq> []"
proof -
  obtain p where "p \<in> set df" "keeps_stats r (region p)" "zone p = Some v"
    using offered_zone[OF assms] by blast
  then have "p \<in> set (filter_stats_points df r (Some v) (Some ''All''))"
    by (simp add: filter_stats_points_conv keeps_stats_same keeps_stats_All)
  then show ?thesis by auto
qed

lemma woreda_option_nonempty:
  assumes "v \<in> set (woredasFor df r z)" "v \<noteq> ''All''"
  shows "filter_stats_points df r z (Some v) \<noteq> []"
proof -
  obtain p where "p \<in> set df" "keeps_stats r (region p)" "keeps_stats z (zone p)" "woreda p = Some v"
    using offered_woreda[OF assms] by blast
  then have "p \<in> set (filter_stats_points df r z (Some v))"
    by (simp add: filter_stats_points_conv keeps_stats_same)
  then show ?thesis by auto
qed

lemma map_nonempty: "filter_stats_points df r z w \<noteq> [] \<Longrightarrow> filter_map_points df r z w \<noteq> []"
  using stats_subset_map[of df r z w] by (cases "filter_stats_points df r z w") auto

text \<open>
  Claim C6. Every zone the resolver offers for a region, other than \<^verbatim>\<open>All\<close>, selects at
  least one record when it is chosen with that region, and every woreda it offers for a
  region and a zone, other than \<^verbatim>\<open>All\<close>, selects at least one record when it is chosen
  with them; this holds for the filter of the statistics and for the filter of the map,
  and for every region and zone, concrete or not.
\<close>

theorem offered_options_match_rows:
  "(zv \<in> set (zonesFor df r) \<and> zv \<noteq> ''All'' \<longrightarrow>
      filter_stats_points df r (Some zv) (Some ''All'') \<noteq> []
      \<and> filter_map_points df r (Some zv) (Some ''All'') \<noteq> [])
   \<and> (wv \<in> set (woredasFor df r z) \<and> wv \<noteq> ''All'' \<longrightarrow>
      filter_stats_points df r z (Some wv) \<noteq> []
      \<and> filter_map_points df r z (Some wv) \<noteq> [])"
  using zone_option_nonempty woreda_option_nonempty map_nonempty by blast

theorem offered_options_match_rows_witness:
  "''Arsi'' \<in> set (zonesFor sample_df (Some ''Oromia''))
   \<and> filter_stats_points sample_df (Some ''Oromia'') (Some ''Arsi'') (Some ''All'') \<noteq> []
   \<and> filter_map_points sample_df (Some ''Oromia'') (Some ''Arsi'') (Some ''All'') \<noteq> []
   \<and> ''Tiyo'' \<in> set (woredasFor sample_df (Some ''Oromia'') (Some ''Arsi''))
   \<and> filter_stats_points sample_df (Some ''Oromia'') (Some ''Arsi'') (Some ''Tiyo'') \<noteq> []
   \<and> filter_map_points sample_df (Some ''Oromia'') (Some ''Arsi'') (Some ''Tiyo'') \<noteq> []"
proof -
  have z: "''Arsi'' \<in> set (zonesFor sample_df (Some ''Oromia'')) \<and> ''Arsi'' \<noteq> ''All''"
    by (simp add: zonesFor_def set_zone_options_def sample_df_def pt_def Let_def col_eq_def)
  have w: "''Tiyo'' \<in> set (woredasFor sample_df (Some ''Oromia'') (Some ''Arsi'')) \<and> ''Tiyo'' \<noteq> ''All''"
    by (simp add: woredasFor_def set_woreda_options_def sample_df_def pt_def Let_def col_eq_def)
  show ?thesis
    using z w offered_options_match_rows [of "''Arsi''" sample_df "Some ''Oromia''" "''Tiyo''" "Some ''Arsi''"]
    by blast
qed


section \<open>Tallies and charts\<close>

text \<open>
  \<open>value_counts\<close> is a frequency tally: each present value once, with the number of
  rows that hold it, in descending order of count.
\<close>

lemma count_list_dropna: "count_list (dropna col) v = count_list col (Some v)"
  by (induction col rule: dropna.induct) auto

lemma value_counts_set:
  "set (value_counts col) = {(v, n). Some v \<in> set col \<and> n = count_list col (Some v)}"
  by (auto simp: value_counts_def Let_def set_unique set_dropna count_list_dropna)

lemma distinct_map_sort_key: "distinct (map f (sort_key k xs)) = distinct (map f xs)"
  by (simp add: distinct_map)

lemma value_counts_distinct: "distinct (map fst (value_counts col))"
  by (simp add: value_counts_def Let_def distinct_map_sort_key comp_def distinct_unique)

lemma value_counts_descending:
  "sorted_wrt (\<lambda>a b. snd b \<le> snd a) (value_counts col)"
proof -
  have "sorted (map (\<lambda>vc. - int (snd vc)) (value_counts col))"
    by (simp add: value_counts_def Let_def)
  then show ?thesis
    by (simp add: sorted_map sorted_wrt_iff_nth_less)
qed

lemma sum_list_sort_key: "sum_list (map f (sort_key k xs)) = (sum_list (map f xs) :: nat)"
proof -
  have "sum_mset (mset (map f (sort_key k xs))) = sum_mset (mset (map f xs))" by simp
  then show ?thesis by (simp only: sum_mset_sum_list)
qed

lemma sum_counts_unique: "sum_list (map (count_list xs) (unique xs)) = length xs"
proof -
  have "sum_list (map (count_list xs) (unique xs)) = sum (count_list xs) (set (unique xs))"
    by (rule sum_list_distinct_conv_sum_set) (rule distinct_unique)
  also have "\<dots> = length xs"
    by (simp add: set_unique sum_count_set)
  finally show ?thesis .
qed

lemma sum_value_counts: "sum_list (map snd (value_counts col)) = length (dropna col)"
  by (simp add: value_counts_def Let_def sum_list_sort_key comp_def sum_counts_unique)

lemma length_dropna_map: "length (dropna (map f xs)) = length (filter (\<lambda>p. f p \<noteq> None) xs)"
  by (induction xs) (auto split: option.splits)

lemma region_data_conv:
  "region_data (update_stats_and_graphs df r z w) = value_counts (map region (filter_stats_points df r z w))"
  by (simp add: update_stats_and_graphs_def Let_def)

lemma total_points_conv:
  "total_points (update_stats_and_graphs df r z w) = length (filter_stats_points df r z w)"
  by (simp add: update_stats_and_graphs_def Let_def)

lemma concrete_region_present:
  assumes "r \<noteq> Some ''All''" "p \<in> set (filter_stats_points df r z w)"
  shows "region p \<noteq> None"
  using assms by (cases r) (auto simp: filter_stats_points_conv keeps_stats_def col_eq_def)

text \<open>
  Claim C3, as amended. The counts of the region table add up to the number of records
  of the filtered subset that have a region. They add up to the total count when no
  record of the subset lacks its region, and so whenever the region selection is not
  \<^verbatim>\<open>All\<close>.
\<close>

theorem region_counts_sum:
  "sum_list (map snd (region_data (update_stats_and_graphs df r z w)))
     = length (filter (\<lambda>p. region p \<noteq> None) (filter_stats_points df r z w))
   \<and> ((\<forall>p \<in> set (filter_stats_points df r z w). region p \<noteq> None) \<longrightarrow>
        sum_list (map snd (region_data (update_stats_and_graphs df r z w)))
          = total_points (update_stats_and_graphs df r z w))
   \<and> (r \<noteq> Some ''All'' \<longrightarrow>
        sum_list (map snd (region_data (update_stats_and_graphs df r z w)))
          = total_points (update_stats_and_graphs df r z w))"
proof -
  have a: "sum_list (map snd (region_data (update_stats_and_graphs df r z w)))
     = length (filter (\<lambda>p. region p \<noteq> None) (filter_stats_points df r z w))"
    by (simp only: region_data_conv sum_value_counts length_dropna_map)
  have b: "(\<forall>p \<in> set xs. region p \<noteq> None) \<Longrightarrow> filter (\<lambda>p. region p \<noteq> None) xs = xs" for xs :: "point list"
    by (simp add: filter_id_conv)
  show ?thesis
    using a b[of "filter_stats_points df r z w"] concrete_region_present[of r _ df z w]
    by (simp add: total_points_conv)
qed

text \<open>
  Claim C3 as stated fails on a data frame whose only row has no region: the total is 1
  and the region table, which leaves missing regions out, is empty.
\<close>

theorem region_counts_sum_counterexample:
  "sum_list (map snd (region_data (update_stats_and_graphs null_region_df (Some ''All'') (Some ''All'') (Some ''All'')))) = 0
   \<and> total_points (update_stats_and_graphs null_region_df (Some ''All'') (Some ''All'') (Some ''All'')) = 1
   \<and> sum_list (map snd (region_data (update_stats_and_graphs null_region_df (Some ''All'') (Some ''All'') (Some ''All''))))
      \<noteq> total_points (update_stats_and_graphs null_region_df (Some ''All'') (Some ''All'') (Some ''All''))"
  by (simp add: update_stats_and_graphs_def filter_stats_points_def value_counts_def null_region_df_def Let_def)

theorem region_counts_sum_witness:
  "sum_list (map snd (region_data (update_stats_and_graphs sample_df (Some ''Oromia'') (Some ''All'') (Some ''All'')))) = 2
   \<and> total_points (update_stats_and_graphs sample_df (Some ''Oromia'') (Some ''All'') (Some ''All'')) = 2
   \<and> Some ''Oromia'' \<noteq> Some ''All''"
  using region_counts_sum [of sample_df "Some ''Oromia''" "Some ''All''" "Some ''All''"]
  by (simp add: total_points_conv filter_stats_points_def sample_df_def pt_def col_eq_def Let_def)


lemma count_list_map_Some:
  "count_list (map f xs) (Some v) = length (filter (\<lambda>p. f p = Some v) xs)"
  by (induction xs) auto

lemma value_counts_tally: "tally_of f xs (value_counts (map f xs))"
proof -
  have s: "set (value_counts (map f xs))
      = {(v, n). Some v \<in> set (map f xs) \<and> n = count_list (map f xs) (Some v)}"
    by (rule value_counts_set)
  have a: "\<forall>vn \<in> set (value_counts (map f xs)).
      snd vn = length (filter (\<lambda>p. f p = Some (fst vn)) xs) \<and> 0 < snd vn"
  proof
    fix vn assume "vn \<in> set (value_counts (map f xs))"
    then have m: "Some (fst vn) \<in> set (map f xs)"
      and c: "snd vn = count_list (map f xs) (Some (fst vn))"
      unfolding s by auto
    from m have "count_list (map f xs) (Some (fst vn)) \<noteq> 0"
      by (simp only: count_list_0_iff not_not)
    then have "0 < count_list (map f xs) (Some (fst vn))"
      by simp
    with c show "snd vn = length (filter (\<lambda>p. f p = Some (fst vn)) xs) \<and> 0 < snd vn"
      by (simp add: count_list_map_Some)
  qed
  have b: "\<forall>p \<in> set xs. case f p of None \<Rightarrow> True | Some v \<Rightarrow> v \<in> fst ` set (value_counts (map f xs))"
  proof
    fix p assume p: "p \<in> set xs"
    show "case f p of None \<Rightarrow> True | Some v \<Rightarrow> v \<in> fst ` set (value_counts (map f xs))"
    proof (cases "f p")
      case None then show ?thesis by simp
    next
      case (Some v)
      with p have "Some v \<in> set (map f xs)" by force
      then have "(v, count_list (map f xs) (Some v)) \<in> set (value_counts (map f xs))"
        unfolding s by simp
      then show ?thesis using Some by force
    qed
  qed
  show ?thesis
    unfolding tally_of_def
    using a b value_counts_distinct value_counts_descending by blast
qed

text \<open>
  Claim C2. The series of the bar chart is the tally of the filtered subset by woreda
  when the woreda selection is \<^verbatim>\<open>All\<close> and its tally by kebele otherwise; the series of
  the pie chart is the tally of the subset by zone when the zone selection is \<^verbatim>\<open>All\<close>
  and its tally by kebele otherwise. A tally holds each value present in the subset once,
  with the number of records that have it, largest count first. The label column of each
  chart is named after the field tallied.
\<close>

theorem chart_series:
  "tally_of (if w = Some ''All'' then woreda else kebele) (filter_stats_points df r z w)
     (fig_series (bar_fig (update_stats_and_graphs df r z w)))
   \<and> fig_label (bar_fig (update_stats_and_graphs df r z w))
     = (if w = Some ''All'' then ''woreda'' else ''kebele'')
   \<and> fig_chart (bar_fig (update_stats_and_graphs df r z w)) = Bar
   \<and> tally_of (if z = Some ''All'' then zone else kebele) (filter_stats_points df r z w)
     (fig_series (pie_fig (update_stats_and_graphs df r z w)))
   \<and> fig_label (pie_fig (update_stats_and_graphs df r z w))
     = (if z = Some ''All'' then ''zone'' else ''kebele'')
   \<and> fig_chart (pie_fig (update_stats_and_graphs df r z w)) = Pie"
  by (simp add: update_stats_and_graphs_def Let_def value_counts_tally)

lemma repeat_all:
  "filter_stats_points repeat_df (Some ''Oromia'') (Some ''All'') (Some ''All'') = repeat_df"
  by (simp add: filter_stats_points_def repeat_df_def pt_def col_eq_def Let_def)

lemma repeat_tiyo:
  "filter_stats_points repeat_df (Some ''Oromia'') (Some ''Arsi'') (Some ''Tiyo'')
     = [pt ''Oromia'' ''Arsi'' ''Tiyo'' ''K1'', pt ''Oromia'' ''Arsi'' ''Tiyo'' ''K1'',
        pt ''Oromia'' ''Arsi'' ''Tiyo'' ''K7'']"
  by (simp add: filter_stats_points_def repeat_df_def pt_def col_eq_def Let_def)

theorem chart_series_witness:
  "fig_series (bar_fig (update_stats_and_graphs repeat_df (Some ''Oromia'') (Some ''All'') (Some ''All'')))
     = [(''Tiyo'', 3), (''Goba'', 1)]
   \<and> tally_of woreda repeat_df [(''Tiyo'', 3), (''Goba'', 1)]
   \<and> fig_series (pie_fig (update_stats_and_graphs repeat_df (Some ''Oromia'') (Some ''All'') (Some ''All'')))
     = [(''Arsi'', 3), (''Bale'', 1)]
   \<and> tally_of zone repeat_df [(''Arsi'', 3), (''Bale'', 1)]
   \<and> fig_series (bar_fig (update_stats_and_graphs repeat_df (Some ''Oromia'') (Some ''Arsi'') (Some ''Tiyo'')))
     = [(''K1'', 2), (''K7'', 1)]
   \<and> fig_series (pie_fig (update_stats_and_graphs repeat_df (Some ''Oromia'') (Some ''Arsi'') (Some ''Tiyo'')))
     = [(''K1'', 2), (''K7'', 1)]
   \<and> tally_of kebele (filter_stats_points repeat_df (Some ''Oromia'') (Some ''Arsi'') (Some ''Tiyo''))
       [(''K1'', 2), (''K7'', 1)]"
proof -
  have b1: "fig_series (bar_fig (update_stats_and_graphs repeat_df (Some ''Oromia'') (Some ''All'') (Some ''All'')))
     = [(''Tiyo'', 3), (''Goba'', 1)]"
    by (simp add: update_stats_and_graphs_def Let_def repeat_all)
       (simp add: value_counts_def repeat_df_def pt_def)
  have p1: "fig_series (pie_fig (update_stats_and_graphs repeat_df (Some ''Oromia'') (Some ''All'') (Some ''All'')))
     = [(''Arsi'', 3), (''Bale'', 1)]"
    by (simp add: update_stats_and_graphs_def Let_def repeat_all)
       (simp add: value_counts_def repeat_df_def pt_def)
  have b2: "fig_series (bar_fig (update_stats_and_graphs repeat_df (Some ''Oromia'') (Some ''Arsi'') (Some ''Tiyo'')))
     = [(''K1'', 2), (''K7'', 1)]"
    by (simp add: update_stats_and_graphs_def Let_def repeat_tiyo)
       (simp add: value_counts_def pt_def)
  have p2: "fig_series (pie_fig (update_stats_and_graphs repeat_df (Some ''Oromia'') (Some ''Arsi'') (Some ''Tiyo'')))
     = [(''K1'', 2), (''K7'', 1)]"
    by (simp add: update_stats_and_graphs_def Let_def repeat_tiyo)
       (simp add: value_counts_def pt_def)
  show ?thesis
    using chart_series [of "Some ''All''" repeat_df "Some ''Oromia''" "Some ''All''"]
      chart_series [of "Some ''Tiyo''" repeat_df "Some ''Oromia''" "Some ''Arsi''"]
    by (simp add: b1 p1 b2 p2 repeat_all)
qed


section \<open>Recovery of the map callback\<close>

lemma attempt_None: "F c = None \<Longrightarrow> attempt F c rest = rest"
  by (simp add: attempt_def)

lemma fallback_map_shape:
  "fallback_map (Exception msg) =
     \<lparr>location = home, zoom_start = 6, control_scale = False,
      children = [TileLayer ''OpenStreetMap'' None, Marker home (''Error: '' @ msg) ''red'']\<rparr>"
  by (simp add: fallback_map_def default_map_def exn_text_def)

lemma update_map_passes: "generate_map F df r z w = Inr page \<Longrightarrow> update_map F df r z w = Inr page"
  by (simp add: update_map_def)

lemma update_map_falls_back:
  "generate_map F df r z w = Inl e \<Longrightarrow> handler_ok F e \<Longrightarrow>
     update_map F df r z w = Inr (Html (fallback_map e))"
  by (simp add: update_map_def handler_ok_def attempt_None)

lemma update_map_raises:
  assumes "update_map F df r z w = Inl e'"
  shows "\<exists>e. generate_map F df r z w = Inl e \<and> \<not> handler_ok F e"
proof (cases "generate_map F df r z w")
  case (Inl e)
  have "\<not> handler_ok F e"
  proof
    assume "handler_ok F e"
    with Inl have "update_map F df r z w = Inr (Html (fallback_map e))"
      by (rule update_map_falls_back)
    with assms show False by simp
  qed
  with Inl show ?thesis by blast
next
  case (Inr page)
  then show ?thesis using assms by (simp add: update_map_def)
qed

text \<open>
  Claim C7, as amended. When building the map raises an exception and no statement of
  the \<^verbatim>\<open>except\<close> branch raises one of its own, \<^verbatim>\<open>update_map\<close> returns the page of a
  map centred on the default location that holds folium's default tile layer and one red
  marker at the default location, whose popup is \<^verbatim>\<open>Error:\<close> followed by the text of the
  exception. When building the map does not raise, \<^verbatim>\<open>update_map\<close> returns the page built.
  An exception leaves \<^verbatim>\<open>update_map\<close> only when building the map raised and a statement
  of the \<^verbatim>\<open>except\<close> branch raised as well. The total, the region table and the two
  charts are what \<^verbatim>\<open>update_stats_and_graphs\<close> returns, whatever the map calls do.
\<close>

theorem update_map_recovers:
  "(generate_map F df r z w = Inl (Exception msg) \<and> handler_ok F (Exception msg) \<longrightarrow>
      update_map F df r z w =
        Inr (Html \<lparr>location = home, zoom_start = 6, control_scale = False,
                   children = [TileLayer ''OpenStreetMap'' None,
                               Marker home (''Error: '' @ msg) ''red'']\<rparr>))
   \<and> (generate_map F df r z w = Inr page \<longrightarrow> update_map F df r z w = Inr page)
   \<and> (update_map F df r z w = Inl e' \<longrightarrow>
        (\<exists>e. generate_map F df r z w = Inl e \<and> \<not> handler_ok F e))
   \<and> fst (on_selection F df r z w) = update_stats_and_graphs df r z w
   \<and> fst (on_selection F df r z w) = fst (on_selection F' df r z w)"
  using update_map_passes [of F df r z w page]
    update_map_falls_back [of F df r z w "Exception msg"]
    update_map_raises [of F df r z w e']
  by (simp add: fallback_map_shape on_selection_def)

lemma nan_generate:
  "generate_map nan_faults nan_df (Some ''All'') (Some ''All'') (Some ''All'')
     = Inl (Exception ''Location values cannot contain NaNs.'')"
  by (simp add: generate_map_def attempt_def nan_faults_def nan_df_def filter_map_points_def Let_def)

lemma ascii_generate:
  "generate_map ascii_stdout_faults nan_df (Some ''All'') (Some ''All'') (Some ''All'')
     = Inl (Exception ''Location values cannot contain NaNs.'')"
  by (simp add: generate_map_def attempt_def ascii_stdout_faults_def nan_df_def filter_map_points_def Let_def)

theorem update_map_recovers_witness:
  "generate_map nan_faults nan_df (Some ''All'') (Some ''All'') (Some ''All'')
     = Inl (Exception ''Location values cannot contain NaNs.'')
   \<and> handler_ok nan_faults (Exception ''Location values cannot contain NaNs.'')
   \<and> update_map nan_faults nan_df (Some ''All'') (Some ''All'') (Some ''All'')
     = Inr (Html \<lparr>location = home, zoom_start = 6, control_scale = False,
                  children = [TileLayer ''OpenStreetMap'' None,
                              Marker home ''Error: Location values cannot contain NaNs.'' ''red'']\<rparr>)"
proof -
  have h: "handler_ok nan_faults (Exception ''Location values cannot contain NaNs.'')"
    by (simp add: handler_ok_def nan_faults_def)
  show ?thesis
    using nan_generate h
      update_map_recovers [of nan_faults nan_df "Some ''All''" "Some ''All''" "Some ''All''"
        "''Location values cannot contain NaNs.''"]
    by simp
qed

text \<open>
  Claim C7 as stated fails where the standard output cannot encode the character U+274C
  that line 300 prints: a row without a latitude makes \<^verbatim>\<open>generate_map\<close> raise, the
  \<^verbatim>\<open>print\<close> of the \<^verbatim>\<open>except\<close> branch raises in its turn, and that exception leaves
  \<^verbatim>\<open>update_map\<close>.
\<close>

theorem update_map_propagates_counterexample:
  "generate_map ascii_stdout_faults nan_df (Some ''All'') (Some ''All'') (Some ''All'')
     = Inl (Exception ''Location values cannot contain NaNs.'')
   \<and> update_map ascii_stdout_faults nan_df (Some ''All'') (Some ''All'') (Some ''All'')
     = Inl (Exception ''ascii codec cannot encode character U+274C in position 0'')"
  by (simp add: update_map_def ascii_generate) (simp add: attempt_def ascii_stdout_faults_def)


section \<open>Start-up\<close>

lemma to_crs_Some: "crs g = Some c0 \<Longrightarrow> to_crs g c = Inr (g\<lparr>crs := Some c\<rparr>)"
  by (simp add: to_crs_def)

lemma load_boundaries_with_crs:
  "crs shp \<noteq> None \<Longrightarrow>
     load_boundaries shp =
       (if region_col \<notin> set (gdf_columns shp)
        then Inl (KeyError region_col (gdf_columns shp))
        else Inr (shp\<lparr>crs := Some ''EPSG:4326'', attr_columns := [region_col]\<rparr>))"
  by (cases "crs shp")
     (auto simp add: load_boundaries_def check_region_col_def to_crs_def gdf_columns_def)

lemma load_boundaries_no_crs:
  "crs shp = None \<Longrightarrow>
     load_boundaries shp =
       Inl (ValueError ''Cannot transform naive geometries.  Please set a crs on the object first.'')"
  by (simp add: load_boundaries_def to_crs_def)

text \<open>
  Claim C8, as amended. For boundary data that names a reference system: when it has no
  column \<^verbatim>\<open>adm1_name\<close>, start-up ends in the \<^verbatim>\<open>KeyError\<close> that names the column and
  lists the columns there are; when it has the column, start-up runs to its end, the
  points are loaded and, in the main program, the server is started on 0.0.0.0:8050.
  Whenever the column is missing start-up ends in an error, so there is no application
  state and no server. Boundary data that names no reference system stops start-up at the
  reprojection of line 42, before the column is looked at.
\<close>

theorem startup_region_col:
  "(crs shp \<noteq> None \<and> region_col \<notin> set (gdf_columns shp) \<longrightarrow>
      startup is_main csv shp = Inl (KeyError region_col (gdf_columns shp)))
   \<and> (crs shp \<noteq> None \<and> region_col \<in> set (gdf_columns shp) \<longrightarrow>
      (\<exists>a. startup is_main csv shp = Inr a
           \<and> app_df a = load_points csv
           \<and> app_server a = (if is_main then Some (''0.0.0.0'', 8050) else None)))
   \<and> (region_col \<notin> set (gdf_columns shp) \<longrightarrow> (\<exists>e. startup is_main csv shp = Inl e))
   \<and> (crs shp = None \<longrightarrow>
      startup is_main csv shp =
        Inl (ValueError ''Cannot transform naive geometries.  Please set a crs on the object first.''))"
proof (cases "crs shp")
  case None
  then show ?thesis
    by (simp add: startup_def Let_def load_boundaries_no_crs)
next
  case (Some c)
  then show ?thesis
    by (simp add: startup_def Let_def load_boundaries_with_crs)
qed

theorem startup_region_col_witness:
  "crs bad_shp \<noteq> None \<and> region_col \<notin> set (gdf_columns bad_shp)
   \<and> startup True sample_csv bad_shp
       = Inl (KeyError ''adm1_name'' [''ADM1_EN'', ''adm1_pcode'', ''geometry''])
   \<and> crs good_shp \<noteq> None \<and> region_col \<in> set (gdf_columns good_shp)
   \<and> (\<exists>a. startup True sample_csv good_shp = Inr a \<and> app_server a = Some (''0.0.0.0'', 8050))"
proof -
  have b: "crs bad_shp \<noteq> None \<and> region_col \<notin> set (gdf_columns bad_shp)"
    by (simp add: region_col_def gdf_columns_def bad_shp_def)
  have g: "crs good_shp \<noteq> None \<and> region_col \<in> set (gdf_columns good_shp)"
    by (simp add: region_col_def gdf_columns_def good_shp_def)
  have c: "gdf_columns bad_shp = [''ADM1_EN'', ''adm1_pcode'', ''geometry'']"
    by (simp add: gdf_columns_def bad_shp_def)
  show ?thesis
    using b g c startup_region_col [of bad_shp True sample_csv]
      startup_region_col [of good_shp True sample_csv]
    by (auto simp: region_col_def)
qed

text \<open>
  Claim C8 as stated fails on a boundary file that has the column \<^verbatim>\<open>adm1_name\<close> and
  names no reference system: the column is there and start-up does not go on, it ends in
  the \<^verbatim>\<open>ValueError\<close> of the reprojection.
\<close>

theorem startup_no_crs_counterexample:
  "region_col \<in> set (gdf_columns no_crs_shp)
   \<and> startup True sample_csv no_crs_shp
       = Inl (ValueError ''Cannot transform naive geometries.  Please set a crs on the object first.'')"
  by (simp add: startup_def load_boundaries_def to_crs_def region_col_def gdf_columns_def
      no_crs_shp_def Let_def)


end
